theory Spec2Isabelle
  imports Main "HOL-Library.AList" "HOL-Library.Multiset"
begin

section \<open>Python values, strings and paths\<close>

text \<open>
  The program is a Python script (\<^verbatim>\<open>compliance_check.py\<close>) with an alternate
  variant under \<^verbatim>\<open>.github/workflows\<close>. Python values that cross the program's
  boundaries (JSON payloads, printed values, CSV cells) are modelled by one datatype.
  A dictionary is an association list whose keys are distinct.
\<close>

datatype pyval =
    PNone
  | PBool bool
  | PInt int
  | PStr string
  | PList "pyval list"
  | PDict "(string \<times> pyval) list"

text \<open>The exceptions the two scripts can raise, as values.\<close>

datatype error =
    ValueError string
  | AssertionError string
  | KeyError string
  | TypeError
  | NameError string
  | MissingSchema
  | RequestException
  | JSONDecodeError
  | FileNotFoundError
  | OSError string

text \<open>
  Python's \<^verbatim>\<open>==\<close> on these values. Values of different types are unequal, with the
  one exception that \<^verbatim>\<open>bool\<close> is a subtype of \<^verbatim>\<open>int\<close>. In particular the integer 200
  is not equal to the string '200'.
\<close>

fun py_eq :: "pyval \<Rightarrow> pyval \<Rightarrow> bool" where
  "py_eq (PBool b) (PInt i) = (i = (if b then 1 else 0))"
| "py_eq (PInt i) (PBool b) = (i = (if b then 1 else 0))"
| "py_eq a b = (a = b)"

definition startswith :: "string \<Rightarrow> string \<Rightarrow> bool" where
  "startswith s p = (take (length p) s = p)"

definition endswith :: "string \<Rightarrow> string \<Rightarrow> bool" where
  "endswith s p = (length p \<le> length s \<and> drop (length s - length p) s = p)"

text \<open>\<^verbatim>\<open>s.split(c)\<close> for a one-character separator: never empty, one piece more
  than there are separators.\<close>

fun split :: "char \<Rightarrow> string \<Rightarrow> string list" where
  "split c [] = [[]]"
| "split c (x # xs) =
     (if x = c then [] # split c xs
      else (case split c xs of
              [] \<Rightarrow> [[x]]
            | p # ps \<Rightarrow> (x # p) # ps))"

text \<open>\<^verbatim>\<open>s.lower()\<close>. Only the letters A to Z matter to the suffix test the program
  makes with it, since no other character lowers to one of \<^verbatim>\<open>.py\<close>.\<close>

definition lower_char :: "char \<Rightarrow> char" where
  "lower_char c =
     (let n = (of_char c :: nat)
      in if 65 \<le> n \<and> n \<le> 90 then char_of (n + 32) else c)"

definition lower :: "string \<Rightarrow> string" where
  "lower s = map lower_char s"

text \<open>\<^verbatim>\<open>os.path.join(a, b)\<close> and \<^verbatim>\<open>os.path.basename(p)\<close> of \<^verbatim>\<open>posixpath\<close>.\<close>

definition os_path_join :: "string \<Rightarrow> string \<Rightarrow> string" where
  "os_path_join a b =
     (if startswith b ''/'' then b
      else if a = [] \<or> endswith a ''/'' then a @ b
      else a @ ''/'' @ b)"

definition os_path_basename :: "string \<Rightarrow> string" where
  "os_path_basename p = rev (takeWhile (\<lambda>c. c \<noteq> CHR ''/'') (rev p))"

text \<open>The apostrophe, for the messages that quote a name.\<close>

definition apos :: string where
  "apos = [CHR 0x27]"

section \<open>Reference resolver: \<^verbatim>\<open>convert_github_url_to_api\<close>\<close>

definition github_prefix :: string where
  "github_prefix = ''https://github.com/''"

definition convert_github_url_to_api :: "string \<Rightarrow> error + string" where
  "convert_github_url_to_api url =
     (if \<not> startswith url github_prefix then Inl (ValueError ''Invalid GitHub URL'')
      else
        let repo_path = split (CHR ''/'') (drop (length github_prefix) url)
        in if \<not> (length repo_path \<ge> 2)
           then Inl (AssertionError (''Looks like an invalid('' @ apos @ ''/'' @ apos @ '')''))
           else Inr (''https://api.github.com/repos/'' @ repo_path ! 0 @ ''/''
                       @ repo_path ! 1 @ ''/contents/''))"

section \<open>Findings: Bandit issues and \<^verbatim>\<open>format_issue\<close>\<close>

text \<open>
  An issue is an object of Bandit's \<^verbatim>\<open>Issue\<close> class. The program reads five of its
  attributes; \<open>oid\<close> is the identity of the object (Python's \<^verbatim>\<open>id\<close>).
\<close>

record issue =
  oid :: nat
  fname :: string
  lineno :: int
  severity :: string
  confidence :: string
  issue_text :: string

definition format_issue :: "issue \<Rightarrow> (string \<times> pyval) list" where
  "format_issue i =
     [(''File'', PStr (os_path_basename (fname i))),
      (''Line'', PInt (lineno i)),
      (''Severity'', PStr (severity i)),
      (''Confidence'', PStr (confidence i)),
      (''Issue'', PStr (issue_text i))]"

section \<open>The world the scripts run in\<close>

text \<open>
  The file system holds directories and files (an association list from path to
  content); \<open>stdout\<close> holds the values printed so far and \<open>requested\<close> the arguments
  of the calls of \<^verbatim>\<open>requests.get\<close> so far, in order. A CSV file is kept as its rows
  of cells: quoting and line endings belong to the CSV library.
\<close>

datatype content = Text string | Csv "pyval list list"

record world =
  dirs :: "string list"
  files :: "(string \<times> content) list"
  stdout :: "pyval list"
  requested :: "string option list"

text \<open>What \<^verbatim>\<open>requests.get\<close> returns: the numeric status code, \<^verbatim>\<open>.text\<close>, and
  the value of \<^verbatim>\<open>.json()\<close> (\<open>None\<close> when the body is not JSON and the call raises).\<close>

record response =
  status_code :: int
  body_text :: string
  body_json :: "pyval option"

text \<open>
  What the program cannot decide itself: the answer of the network to a URL (\<open>None\<close>
  when the request raises), and whether the operating system lets it create a
  directory or open a file for writing at a path.
\<close>

record env =
  http :: "string \<Rightarrow> response option"
  can_mkdir :: "string \<Rightarrow> bool"
  can_write :: "string \<Rightarrow> bool"

definition py_print :: "pyval \<Rightarrow> world \<Rightarrow> world" where
  "py_print v w = w\<lparr>stdout := stdout w @ [v]\<rparr>"

text \<open>\<^verbatim>\<open>requests.get(url)\<close>. A URL that is \<^verbatim>\<open>None\<close> has no scheme and is rejected
  before anything is sent.\<close>

definition requests_get :: "env \<Rightarrow> string option \<Rightarrow> world \<Rightarrow> (error + response) \<times> world" where
  "requests_get e url w =
     (let w1 = w\<lparr>requested := requested w @ [url]\<rparr>
      in case url of
           None \<Rightarrow> (Inl MissingSchema, w1)
         | Some u \<Rightarrow>
             (case http e u of
                None \<Rightarrow> (Inl RequestException, w1)
              | Some r \<Rightarrow> (Inr r, w1)))"

text \<open>\<^verbatim>\<open>v[k]\<close> with a string key, and \<^verbatim>\<open>for x in v\<close>.\<close>

fun getitem :: "pyval \<Rightarrow> string \<Rightarrow> error + pyval" where
  "getitem (PDict kvs) k = (case map_of kvs k of None \<Rightarrow> Inl (KeyError k) | Some v \<Rightarrow> Inr v)"
| "getitem _ k = Inl TypeError"

fun py_iter :: "pyval \<Rightarrow> error + pyval list" where
  "py_iter (PList xs) = Inr xs"
| "py_iter (PDict kvs) = Inr (map (\<lambda>kv. PStr (fst kv)) kvs)"
| "py_iter (PStr s) = Inr (map (\<lambda>c. PStr [c]) s)"
| "py_iter _ = Inl TypeError"

fun as_str :: "pyval \<Rightarrow> string option" where
  "as_str (PStr s) = Some s"
| "as_str _ = None"

definition path_exists :: "world \<Rightarrow> string \<Rightarrow> bool" where
  "path_exists w p = (p \<in> set (dirs w) \<or> p \<in> set (map fst (files w)))"

definition os_makedirs :: "env \<Rightarrow> string \<Rightarrow> world \<Rightarrow> (error + unit) \<times> world" where
  "os_makedirs e p w =
     (if can_mkdir e p then (Inr (), w\<lparr>dirs := dirs w @ [p]\<rparr>) else (Inl (OSError p), w))"

text \<open>\<^verbatim>\<open>with open(path, 'w') as f: f.write(c)\<close>.\<close>

definition open_write :: "env \<Rightarrow> string \<Rightarrow> content \<Rightarrow> world \<Rightarrow> (error + unit) \<times> world" where
  "open_write e path c w =
     (if can_write e path then (Inr (), w\<lparr>files := AList.update path c (files w)\<rparr>)
      else (Inl (OSError path), w))"

section \<open>File retriever\<close>

text \<open>
  \<^verbatim>\<open>get_file_list_recursive(url, file_list)\<close>: the loop over the listing, then the
  function. \<^verbatim>\<open>get_all_nested_files\<close> is not defined anywhere in the module, so the
  directory branch raises NameError before its argument is evaluated. The list passed
  when the caller gives none is the one default list shared by all calls.
\<close>

fun file_list_loop :: "pyval list \<Rightarrow> pyval list \<Rightarrow> world \<Rightarrow> (error + pyval list) \<times> world" where
  "file_list_loop [] file_list w = (Inr file_list, w)"
| "file_list_loop (item # rest) file_list w =
     (case getitem item ''type'' of
        Inl x \<Rightarrow> (Inl x, w)
      | Inr t \<Rightarrow>
          if py_eq t (PStr ''file'') then
            (case getitem item ''download_url'' of
               Inl x \<Rightarrow> (Inl x, w)
             | Inr d \<Rightarrow> file_list_loop rest (file_list @ [d]) (py_print d w))
          else if py_eq t (PStr ''dir'') then (Inl (NameError ''get_all_nested_files''), w)
          else file_list_loop rest file_list w)"

definition get_file_list_recursive ::
  "env \<Rightarrow> string option \<Rightarrow> pyval list \<Rightarrow> world \<Rightarrow> (error + pyval list) \<times> world" where
  "get_file_list_recursive e url file_list w =
     (case requests_get e url w of
        (Inl x, w1) \<Rightarrow> (Inl x, w1)
      | (Inr r, w1) \<Rightarrow>
          if \<not> py_eq (PInt (status_code r)) (PStr ''200'')
          then (Inl (AssertionError (body_text r)), w1)
          else
            (case body_json r of
               None \<Rightarrow> (Inl JSONDecodeError, w1)
             | Some js_res \<Rightarrow>
                 (case py_iter js_res of
                    Inl x \<Rightarrow> (Inl x, w1)
                  | Inr items \<Rightarrow> file_list_loop items file_list w1)))"

text \<open>\<^verbatim>\<open>download_files(repo_url, local_dir)\<close>: the loop body, then the function.\<close>

fun download_loop :: "env \<Rightarrow> string \<Rightarrow> pyval list \<Rightarrow> world \<Rightarrow> (error + unit) \<times> world" where
  "download_loop e local_dir [] w = (Inr (), w)"
| "download_loop e local_dir (file # rest) w =
     (case getitem file ''download_url'' of
        Inl x \<Rightarrow> (Inl x, w)
      | Inr download_url \<Rightarrow>
          (case getitem file ''name'' of
             Inl x \<Rightarrow> (Inl x, w)
           | Inr n \<Rightarrow>
               (case as_str n of
                  None \<Rightarrow> (Inl TypeError, w)
                | Some name \<Rightarrow>
                    let file_name = os_path_join local_dir name
                    in if \<not> endswith (lower file_name) ''.py''
                       then download_loop e local_dir rest
                              (py_print (PStr (''Skipping file '' @ apos @ file_name @ apos
                                                 @ '' as it is not a python file'')) w)
                       else
                         (case requests_get e (as_str download_url)
                                 (py_print (PStr (''Downloading to path '' @ apos @ file_name @ apos)) w) of
                            (Inl x, w2) \<Rightarrow> (Inl x, w2)
                          | (Inr r, w2) \<Rightarrow>
                              (case open_write e file_name (Text (body_text r)) w2 of
                                 (Inl x, w3) \<Rightarrow> (Inl x, w3)
                               | (Inr u, w3) \<Rightarrow> download_loop e local_dir rest w3)))))"

definition download_files :: "env \<Rightarrow> string option \<Rightarrow> string \<Rightarrow> world \<Rightarrow> (error + unit) \<times> world" where
  "download_files e repo_url local_dir w =
     (case requests_get e repo_url w of
        (Inl x, w1) \<Rightarrow> (Inl x, w1)
      | (Inr r, w1) \<Rightarrow>
          (case body_json r of
             None \<Rightarrow> (Inl JSONDecodeError, w1)
           | Some listing \<Rightarrow>
               (case (if \<not> path_exists w1 local_dir then os_makedirs e local_dir w1
                      else (Inr (), w1)) of
                  (Inl x, w2) \<Rightarrow> (Inl x, w2)
                | (Inr u, w2) \<Rightarrow>
                    (case py_iter listing of
                       Inl x \<Rightarrow> (Inl x, w2)
                     | Inr items \<Rightarrow> download_loop e local_dir items w2))))"

section \<open>Analysis runner\<close>

text \<open>
  Bandit is an external engine. One call of \<^verbatim>\<open>run_bandit_on_file\<close> asks the manager
  to discover the file, run its tests and hand back \<^verbatim>\<open>b_mgr.results\<close>: the engine
  is a parameter that maps the manager's state, the files on disk and the path to the
  manager's new state and either the results or the message of the exception raised.
\<close>

type_synonym 'm engine = "'m \<Rightarrow> (string \<times> content) list \<Rightarrow> string \<Rightarrow> 'm \<times> (string + issue list)"

definition run_bandit_on_file ::
  "'m engine \<Rightarrow> 'm \<Rightarrow> string \<Rightarrow> world \<Rightarrow> ('m \<times> issue list) \<times> world" where
  "run_bandit_on_file eng b_mgr file_path w =
     (case eng b_mgr (files w) file_path of
        (b_mgr', Inr results) \<Rightarrow> ((b_mgr', results), w)
      | (b_mgr', Inl msg) \<Rightarrow>
          ((b_mgr', []),
           py_print (PStr (''Error running bandit on '' @ file_path @ '': '' @ msg)) w))"

text \<open>
  \<^verbatim>\<open>os.walk(directory)\<close>, flattened to the pairs (root, file) its two nested loops
  visit: every file below the directory, with the directory it lies in. The order is
  the operating system's.
\<close>

definition walk_root :: "string \<Rightarrow> string \<Rightarrow> string" where
  "walk_root directory p =
     (let d = take (length p - length (os_path_basename p)) p
      in if d = directory \<or> d = directory @ ''/'' then directory else butlast d)"

definition os_walk :: "world \<Rightarrow> string \<Rightarrow> (string \<times> string) list" where
  "os_walk w directory =
     (let top = (if endswith directory ''/'' then directory else directory @ ''/'')
      in if directory = [] then []
         else map (\<lambda>p. (walk_root directory p, os_path_basename p))
                (filter (\<lambda>p. startswith p top \<and> p \<noteq> top) (map fst (files w))))"

fun scan_loop ::
  "'m engine \<Rightarrow> (string \<times> string) list \<Rightarrow> 'm \<Rightarrow> issue list \<Rightarrow> world \<Rightarrow> issue list \<times> world" where
  "scan_loop eng [] b_mgr issues w = (issues, w)"
| "scan_loop eng (rf # rest) b_mgr issues w =
     (if endswith (snd rf) ''.py'' then
        (let file_path = os_path_join (fst rf) (snd rf)
         in case run_bandit_on_file eng b_mgr file_path
                   (py_print (PStr (''Scanning '' @ file_path @ ''...'')) w) of
              ((b_mgr', results), w2) \<Rightarrow> scan_loop eng rest b_mgr' (issues @ results) w2)
      else scan_loop eng rest b_mgr issues w)"

text \<open>\<^verbatim>\<open>scan_directory(directory)\<close>; \<open>b_mgr\<close> is the manager as just constructed.\<close>

definition scan_directory :: "'m engine \<Rightarrow> 'm \<Rightarrow> string \<Rightarrow> world \<Rightarrow> issue list \<times> world" where
  "scan_directory eng b_mgr directory w = scan_loop eng (os_walk w directory) b_mgr [] w"

section \<open>Finding normalizer and report writer\<close>

text \<open>
  \<^verbatim>\<open>set(issues)\<close> decides with the hash and the equality of the class of its
  elements: an element is already in the set when a stored element has the same hash
  and is the same object or compares equal. The class is Bandit's, so its two methods
  are parameters. A set is iterated in the order of the slots its elements occupy in
  the hash table, not in the order of insertion; the slot an object ends up in follows
  from its hash and from the collisions while the table was filled, so it is a third
  parameter, and no statement below depends on a particular order.
\<close>

record issue_class =
  hash_of :: "issue \<Rightarrow> int"
  eq_of :: "issue \<Rightarrow> issue \<Rightarrow> bool"
  slot_of :: "issue \<Rightarrow> nat"

definition same_element :: "issue_class \<Rightarrow> issue \<Rightarrow> issue \<Rightarrow> bool" where
  "same_element cls x y = (hash_of cls x = hash_of cls y \<and> (oid x = oid y \<or> eq_of cls x y))"

definition set_add :: "issue_class \<Rightarrow> issue list \<Rightarrow> issue \<Rightarrow> issue list" where
  "set_add cls s x = (if list_ex (\<lambda>y. same_element cls y x) s then s else s @ [x])"

text \<open>The elements of \<^verbatim>\<open>set(xs)\<close>, as they were inserted.\<close>

definition py_set :: "issue_class \<Rightarrow> issue list \<Rightarrow> issue list" where
  "py_set cls xs = foldl (set_add cls) [] xs"

text \<open>\<^verbatim>\<open>for x in s\<close> over a set with the elements \<open>s\<close>: by slot.\<close>

definition set_iter :: "issue_class \<Rightarrow> issue list \<Rightarrow> issue list" where
  "set_iter cls s = sort_key (slot_of cls) s"

text \<open>
  Two classes. The first hashes an object by its identity, as Python's \<^verbatim>\<open>object\<close>
  does and as Bandit's \<^verbatim>\<open>Issue.__hash__\<close> (\<^verbatim>\<open>return id(self)\<close>) does. The second
  compares and hashes by the five attributes the program reads. Both tables have
  eight slots.
\<close>

definition identity_class :: issue_class where
  "identity_class =
     \<lparr>hash_of = (\<lambda>i. int (oid i)), eq_of = (\<lambda>a b. oid a = oid b),
      slot_of = (\<lambda>i. (5 * oid i) mod 8)\<rparr>"

definition value_class :: issue_class where
  "value_class =
     \<lparr>hash_of = (\<lambda>i. lineno i),
      eq_of = (\<lambda>a b. fname a = fname b \<and> lineno a = lineno b \<and> severity a = severity b
                     \<and> confidence a = confidence b \<and> issue_text a = issue_text b),
      slot_of = (\<lambda>i. nat \<bar>lineno i\<bar> mod 8)\<rparr>"

text \<open>
  \<^verbatim>\<open>pd.DataFrame(list_of_dicts)\<close>: the columns are the keys of the dictionaries in
  order of first appearance, so an empty list gives a frame without columns.
  \<^verbatim>\<open>df.to_csv(path, index=False)\<close> writes the column names, then the rows.
\<close>

record dataframe =
  columns :: "string list"
  cells :: "pyval list list"

definition DataFrame :: "(string \<times> pyval) list list \<Rightarrow> dataframe" where
  "DataFrame ds =
     (let cols = rev (remdups (rev (concat (map (map fst) ds))))
      in \<lparr>columns = cols,
          cells = map (\<lambda>d. map (\<lambda>c. case map_of d c of None \<Rightarrow> PNone | Some v \<Rightarrow> v) cols) ds\<rparr>)"

definition to_csv :: "dataframe \<Rightarrow> content" where
  "to_csv df = Csv (map PStr (columns df) # cells df)"

text \<open>Lines 149 and 150 of \<^verbatim>\<open>save_compliance_report\<close>: the normalized findings.\<close>

definition issues_data :: "issue_class \<Rightarrow> issue list \<Rightarrow> (string \<times> pyval) list list" where
  "issues_data cls issues = map format_issue (set_iter cls (py_set cls issues))"

definition save_compliance_report ::
  "env \<Rightarrow> issue_class \<Rightarrow> issue list \<Rightarrow> string \<Rightarrow> world \<Rightarrow> (error + unit) \<times> world" where
  "save_compliance_report e cls issues output_file w =
     (let df = DataFrame (issues_data cls issues)
      in case open_write e output_file (to_csv df) w of
           (Inl x, w1) \<Rightarrow> (Inl x, w1)
         | (Inr u, w1) \<Rightarrow>
             (Inr (), py_print (PStr (''Issues saved to '' @ apos @ output_file @ apos)) w1))"

section \<open>The orchestrator and the script\<close>

definition print_issue :: "issue \<Rightarrow> world \<Rightarrow> world" where
  "print_issue i w = py_print (PStr (issue_text i @ '' '' @ apos @ fname i @ apos)) w"

definition main ::
  "env \<Rightarrow> issue_class \<Rightarrow> 'm engine \<Rightarrow> 'm \<Rightarrow> string option \<Rightarrow> string \<Rightarrow> world
     \<Rightarrow> (error + unit) \<times> world" where
  "main e cls eng b_mgr repo_url directory w =
     (case download_files e repo_url directory w of
        (Inl x, w1) \<Rightarrow> (Inl x, w1)
      | (Inr u, w1) \<Rightarrow>
          (case scan_directory eng b_mgr directory w1 of
             (issues, w2) \<Rightarrow>
               (let w3 = py_print (PStr ''====================ISSUE_LIST===================='') w2;
                    w4 = fold print_issue issues w3;
                    w5 = py_print (PStr ''====================XXXXXXXXXX===================='') w4
                in if issues \<noteq> []
                   then save_compliance_report e cls issues ''compliance_report.csv'' w5
                   else (Inr (), py_print (PStr ''No issues found.'') w5))))"

text \<open>
  The \<^verbatim>\<open>__main__\<close> block: \<open>argv\<close> is \<^verbatim>\<open>sys.argv\<close>. Only ValueError is caught;
  another exception of the resolver ends the run there. \<^verbatim>\<open>main(api_url)\<close> is called
  on every path that reaches the end of the block, with the default directory.
\<close>

definition script ::
  "env \<Rightarrow> issue_class \<Rightarrow> 'm engine \<Rightarrow> 'm \<Rightarrow> string list \<Rightarrow> world \<Rightarrow> (error + unit) \<times> world" where
  "script e cls eng b_mgr argv w =
     (if length argv \<noteq> 2
      then main e cls eng b_mgr None ''temp''
             (py_print (PStr ''Usage: python <file_name> <repo_url>'') w)
      else
        (case convert_github_url_to_api (argv ! 1) of
           Inr api_url \<Rightarrow> main e cls eng b_mgr (Some api_url) ''temp'' (py_print (PStr api_url) w)
         | Inl (ValueError msg) \<Rightarrow> main e cls eng b_mgr None ''temp'' (py_print (PStr msg) w)
         | Inl x \<Rightarrow> (Inl x, w)))"

section \<open>The alternate variant: \<^verbatim>\<open>run_bandit\<close>\<close>

text \<open>
  The alternate script shells out. Its environment adds: the directory
  \<^verbatim>\<open>tempfile.mkdtemp\<close> creates (\<open>None\<close> when it raises), the files \<^verbatim>\<open>git clone\<close>
  leaves on disk and the standard output of \<^verbatim>\<open>bandit -r dir -f json\<close> (\<open>None\<close> when
  the executable cannot be started: \<^verbatim>\<open>subprocess.run\<close> is called without
  \<^verbatim>\<open>check\<close>, so an exit status never raises), and \<^verbatim>\<open>json.loads\<close> (\<open>None\<close> when it
  raises).
\<close>

record alt_env = env +
  mkdtemp :: "string option"
  git_clone :: "string \<Rightarrow> string \<Rightarrow> (string \<times> content) list option"
  bandit_cli :: "(string \<times> content) list \<Rightarrow> string \<Rightarrow> string option"
  json_loads :: "string \<Rightarrow> pyval option"

definition headers :: "pyval list" where
  "headers = [PStr ''Filename'', PStr ''Line Number'', PStr ''Issue Severity'',
              PStr ''Issue Confidence'', PStr ''Issue Text'', PStr ''More Info'']"

fun getitems :: "pyval \<Rightarrow> string list \<Rightarrow> error + pyval list" where
  "getitems v [] = Inr []"
| "getitems v (k # ks) =
     (case getitem v k of
        Inl x \<Rightarrow> Inl x
      | Inr a \<Rightarrow> (case getitems v ks of Inl x \<Rightarrow> Inl x | Inr rest \<Rightarrow> Inr (a # rest)))"

text \<open>Step 4: the loop that fills \<^verbatim>\<open>csv_data\<close>.\<close>

fun csv_rows :: "pyval list \<Rightarrow> pyval list list \<Rightarrow> error + pyval list list" where
  "csv_rows [] csv_data = Inr csv_data"
| "csv_rows (result # rest) csv_data =
     (case getitems result [''filename'', ''line_number'', ''issue_severity'',
                            ''issue_confidence'', ''issue_text'', ''more_info''] of
        Inl x \<Rightarrow> Inl x
      | Inr row \<Rightarrow> csv_rows rest (csv_data @ [row]))"

definition below :: "string \<Rightarrow> string \<Rightarrow> bool" where
  "below d p = (p = d \<or> startswith p (d @ ''/''))"

definition shutil_rmtree :: "string \<Rightarrow> world \<Rightarrow> world" where
  "shutil_rmtree d w =
     w\<lparr>dirs := filter (\<lambda>p. \<not> below d p) (dirs w),
       files := filter (\<lambda>pc. \<not> below d (fst pc)) (files w)\<rparr>"

text \<open>Step 5: the writer of the alternate variant.\<close>

definition write_report :: "alt_env \<Rightarrow> string \<Rightarrow> pyval list list \<Rightarrow> world \<Rightarrow> (error + unit) \<times> world" where
  "write_report e output_dir csv_data w =
     (let csv_filename = os_path_join output_dir ''compliance_report.csv''
      in case open_write (env.truncate e) csv_filename (Csv (headers # csv_data)) w of
           (Inl x, w1) \<Rightarrow> (Inl x, w1)
         | (Inr u, w1) \<Rightarrow>
             (Inr (), py_print (PStr (''CSV file '' @ apos @ csv_filename @ apos
                                        @ '' has been created successfully.'')) w1))"

definition run_bandit :: "alt_env \<Rightarrow> string \<Rightarrow> string \<Rightarrow> world \<Rightarrow> (error + unit) \<times> world" where
  "run_bandit e target_path output_dir w =
     (case mkdtemp e of
        None \<Rightarrow> (Inl (OSError ''mkdtemp''), w)
      | Some temp_dir \<Rightarrow>
          (let w1 = w\<lparr>dirs := dirs w @ [temp_dir]\<rparr>
           in case git_clone e target_path temp_dir of
                None \<Rightarrow> (Inl FileNotFoundError, w1)
              | Some cloned \<Rightarrow>
                  (let w2 = w1\<lparr>files := AList.merge (files w1) cloned\<rparr>
                   in case bandit_cli e (files w2) temp_dir of
                        None \<Rightarrow> (Inl FileNotFoundError, w2)
                      | Some bandit_output \<Rightarrow>
                          (case json_loads e bandit_output of
                             None \<Rightarrow> (Inl JSONDecodeError, w2)
                           | Some bandit_data \<Rightarrow>
                               (case getitem bandit_data ''results'' of
                                  Inl x \<Rightarrow> (Inl x, w2)
                                | Inr results \<Rightarrow>
                                    (case py_iter results of
                                       Inl x \<Rightarrow> (Inl x, w2)
                                     | Inr rs \<Rightarrow>
                                         (case csv_rows rs [] of
                                            Inl x \<Rightarrow> (Inl x, w2)
                                          | Inr csv_data \<Rightarrow>
                                              (case write_report e output_dir csv_data w2 of
                                                 (Inl x, w3) \<Rightarrow> (Inl x, w3)
                                               | (Inr u, w3) \<Rightarrow>
                                                   (Inr (), shutil_rmtree temp_dir w3)))))))))"

section \<open>Notions used to state the properties\<close>

text \<open>The column names \<^verbatim>\<open>format_issue\<close> gives a row, as a header row.\<close>

definition keys5 :: "string list" where
  "keys5 = [''File'', ''Line'', ''Severity'', ''Confidence'', ''Issue'']"

definition report_header :: "pyval list" where
  "report_header = [PStr ''File'', PStr ''Line'', PStr ''Severity'', PStr ''Confidence'', PStr ''Issue'']"

text \<open>No element of the list is the same set element as a later one.\<close>

fun no_same_pair :: "issue_class \<Rightarrow> issue list \<Rightarrow> bool" where
  "no_same_pair cls [] = True"
| "no_same_pair cls (x # xs) = (\<not> list_ex (\<lambda>z. same_element cls x z) xs \<and> no_same_pair cls xs)"

section \<open>Concrete inputs\<close>

text \<open>
  A world with nothing in it, and a small repository: the top listing holds the file
  \<^verbatim>\<open>a.py\<close> and the directory \<^verbatim>\<open>sub\<close>, whose own listing holds \<^verbatim>\<open>b.py\<close>. The last
  URL answers with status 404 and an empty JSON list.
\<close>

definition empty_world :: world where
  "empty_world = \<lparr>dirs = [], files = [], stdout = [], requested = []\<rparr>"

definition top_entries :: "pyval list" where
  "top_entries =
     [PDict [(''name'', PStr ''a.py''), (''type'', PStr ''file''),
             (''download_url'', PStr ''https://raw.example/a.py''),
             (''url'', PStr ''https://api.example/contents/a.py'')],
      PDict [(''name'', PStr ''sub''), (''type'', PStr ''dir''),
             (''download_url'', PNone),
             (''url'', PStr ''https://api.example/contents/sub'')]]"

definition listing_top :: pyval where
  "listing_top = PList top_entries"

definition listing_sub :: pyval where
  "listing_sub =
     PList [PDict [(''name'', PStr ''b.py''), (''type'', PStr ''file''),
                   (''download_url'', PStr ''https://raw.example/sub/b.py''),
                   (''url'', PStr ''https://api.example/contents/sub/b.py'')]]"

definition demo_http :: "string \<Rightarrow> response option" where
  "demo_http u =
     (if u = ''https://api.example/contents/'' then
        Some \<lparr>status_code = 200, body_text = ''[...]'', body_json = Some listing_top\<rparr>
      else if u = ''https://api.example/contents/sub'' then
        Some \<lparr>status_code = 200, body_text = ''[...]'', body_json = Some listing_sub\<rparr>
      else if u = ''https://raw.example/a.py'' then
        Some \<lparr>status_code = 200, body_text = ''print(1)'', body_json = None\<rparr>
      else if u = ''https://raw.example/sub/b.py'' then
        Some \<lparr>status_code = 200, body_text = ''print(2)'', body_json = None\<rparr>
      else if u = ''https://api.example/missing/'' then
        Some \<lparr>status_code = 404, body_text = ''[]'', body_json = Some (PList [])\<rparr>
      else None)"

definition demo_env :: env where
  "demo_env = \<lparr>http = demo_http, can_mkdir = (\<lambda>p. True), can_write = (\<lambda>p. True)\<rparr>"

text \<open>The world after \<^verbatim>\<open>download_files\<close> has run on that repository.\<close>

definition staged_world :: world where
  "staged_world =
     \<lparr>dirs = [''temp''], files = [(''temp/a.py'', Text ''print(1)'')],
      stdout = [PStr (''Downloading to path '' @ apos @ ''temp/a.py'' @ apos),
                PStr (''Skipping file '' @ apos @ ''temp/sub'' @ apos @ '' as it is not a python file'')],
      requested = [Some ''https://api.example/contents/'', Some ''https://raw.example/a.py'']\<rparr>"

text \<open>An engine that reports nothing, and one that reports one issue for each file.\<close>

definition quiet_engine :: "unit engine" where
  "quiet_engine m fs p = (m, Inr [])"

definition demo_engine :: "unit engine" where
  "demo_engine m fs p =
     (m, Inr [\<lparr>oid = 1, fname = p, lineno = 3, severity = ''LOW'', confidence = ''HIGH'',
               issue_text = ''Use of assert detected.''\<rparr>])"

definition demo_issue :: issue where
  "demo_issue = \<lparr>oid = 1, fname = ''temp/a.py'', lineno = 3, severity = ''LOW'',
                 confidence = ''HIGH'', issue_text = ''Use of assert detected.''\<rparr>"

text \<open>Two issue objects with the same attributes, and two issues that differ in the
  directory of their file only.\<close>

definition twin1 :: issue where
  "twin1 = \<lparr>oid = 1, fname = ''temp/x.py'', lineno = 7, severity = ''LOW'', confidence = ''HIGH'',
            issue_text = ''Use of assert detected.''\<rparr>"

definition twin2 :: issue where
  "twin2 = twin1\<lparr>oid := 2\<rparr>"

definition in_pkg :: issue where
  "in_pkg = \<lparr>oid = 1, fname = ''temp/pkg/x.py'', lineno = 7, severity = ''LOW'', confidence = ''HIGH'',
             issue_text = ''Use of assert detected.''\<rparr>"

definition in_lib :: issue where
  "in_lib = \<lparr>oid = 2, fname = ''temp/lib/x.py'', lineno = 7, severity = ''LOW'', confidence = ''HIGH'',
             issue_text = ''Use of assert detected.''\<rparr>"

text \<open>
  Two environments of the alternate script: in the first Bandit prints nothing on its
  standard output, which is not JSON; in the second it prints a payload with no results.
\<close>

definition broken_alt_env :: alt_env where
  "broken_alt_env =
     \<lparr>http = (\<lambda>u. None), can_mkdir = (\<lambda>p. True), can_write = (\<lambda>p. True),
      mkdtemp = Some ''/tmp/tmpabc'',
      git_clone = (\<lambda>target d. Some [(d @ ''/a.py'', Text ''print(1)'')]),
      bandit_cli = (\<lambda>fs d. Some ''''),
      json_loads = (\<lambda>s. if s = ''{}'' then Some (PDict []) else None)\<rparr>"

definition working_alt_env :: alt_env where
  "working_alt_env =
     broken_alt_env\<lparr>bandit_cli := (\<lambda>fs d. Some ''{...}''),
                     json_loads := (\<lambda>s. Some (PDict [(''results'', PList [])]))\<rparr>"

section \<open>Auxiliary facts\<close>

subsection \<open>Paths\<close>

lemma basename_no_slash: "CHR ''/'' \<notin> set (os_path_basename p)"
proof -
  have "\<forall>c \<in> set (takeWhile (\<lambda>c. c \<noteq> CHR ''/'') (rev p)). c \<noteq> CHR ''/''"
    by (auto dest: set_takeWhileD)
  then show ?thesis by (auto simp: os_path_basename_def)
qed

lemma basename_suffix: "\<exists>d. p = d @ os_path_basename p"
proof -
  have "rev p = takeWhile (\<lambda>c. c \<noteq> CHR ''/'') (rev p) @ dropWhile (\<lambda>c. c \<noteq> CHR ''/'') (rev p)"
    by simp
  then have "p = rev (dropWhile (\<lambda>c. c \<noteq> CHR ''/'') (rev p)) @ os_path_basename p"
    unfolding os_path_basename_def by (metis rev_append rev_rev_ident)
  then show ?thesis by blast
qed

subsection \<open>What each step leaves untouched\<close>

lemma files_py_print [simp]: "files (py_print v w) = files w"
  by (simp add: py_print_def)

lemma dirs_py_print [simp]: "dirs (py_print v w) = dirs w"
  by (simp add: py_print_def)

lemma requested_py_print [simp]: "requested (py_print v w) = requested w"
  by (simp add: py_print_def)

lemma requests_get_files: "requests_get e u w = (r, w') \<Longrightarrow> files w' = files w"
  by (auto simp: requests_get_def Let_def split: option.splits)

lemma open_write_other:
  "open_write e path c w = (r, w') \<Longrightarrow> p \<noteq> path \<Longrightarrow> map_of (files w') p = map_of (files w) p"
  by (auto simp: open_write_def update_conv' split: if_splits)

lemma download_loop_other:
  "download_loop e d items w = (r, w') \<Longrightarrow> \<not> endswith (lower p) ''.py''
     \<Longrightarrow> map_of (files w') p = map_of (files w) p"
proof (induction items arbitrary: w)
  case Nil
  then show ?case by simp
next
  case (Cons item rest)
  show ?case
  proof (cases "getitem item ''download_url''")
    case (Inl x)
    with Cons.prems show ?thesis by simp
  next
    case du: (Inr download_url)
    show ?thesis
    proof (cases "getitem item ''name''")
      case (Inl x)
      with Cons.prems du show ?thesis by simp
    next
      case nm: (Inr n)
      show ?thesis
      proof (cases "as_str n")
        case None
        with Cons.prems du nm show ?thesis by simp
      next
        case (Some name)
        let ?fn = "os_path_join d name"
        show ?thesis
        proof (cases "endswith (lower ?fn) ''.py''")
          case False
          with Cons.prems du nm Some
          have "download_loop e d rest
                  (py_print (PStr (''Skipping file '' @ apos @ ?fn @ apos
                                     @ '' as it is not a python file'')) w) = (r, w')"
            by (simp add: Let_def)
          from Cons.IH [OF this Cons.prems(2)] show ?thesis by simp
        next
          case True
          obtain rr w2 where rg: "requests_get e (as_str download_url)
               (py_print (PStr (''Downloading to path '' @ apos @ ?fn @ apos)) w) = (rr, w2)"
            by (cases "requests_get e (as_str download_url)
               (py_print (PStr (''Downloading to path '' @ apos @ ?fn @ apos)) w)") auto
          have f2: "files w2 = files w" using requests_get_files [OF rg] by simp
          show ?thesis
          proof (cases rr)
            case (Inl x)
            with Cons.prems du nm Some True rg f2 show ?thesis by (simp add: Let_def)
          next
            case (Inr resp)
            obtain ro w3 where ow: "open_write e ?fn (Text (body_text resp)) w2 = (ro, w3)"
              by (cases "open_write e ?fn (Text (body_text resp)) w2") auto
            have ne: "p \<noteq> ?fn" using True Cons.prems(2) by auto
            have f3: "map_of (files w3) p = map_of (files w) p"
              using open_write_other [OF ow ne] f2 by simp
            show ?thesis
            proof (cases ro)
              case (Inl x)
              with Cons.prems du nm Some True rg Inr ow f3 show ?thesis by (simp add: Let_def)
            next
              case ok: (Inr u)
              with Cons.prems du nm Some True rg Inr ow
              have "download_loop e d rest w3 = (r, w')" by (simp add: Let_def)
              from Cons.IH [OF this Cons.prems(2)] f3 show ?thesis by simp
            qed
          qed
        qed
      qed
    qed
  qed
qed

lemma os_makedirs_files: "os_makedirs e p w = (r, w') \<Longrightarrow> files w' = files w"
  by (auto simp: os_makedirs_def split: if_splits)

lemma download_files_other:
  assumes "download_files e u d w = (r, w')" and "\<not> endswith (lower p) ''.py''"
  shows "map_of (files w') p = map_of (files w) p"
proof -
  obtain rr w1 where rg: "requests_get e u w = (rr, w1)"
    by (cases "requests_get e u w") auto
  have f1: "files w1 = files w" using requests_get_files [OF rg] .
  show ?thesis
  proof (cases rr)
    case (Inl x)
    with assms(1) rg f1 show ?thesis by (simp add: download_files_def)
  next
    case (Inr resp)
    show ?thesis
    proof (cases "body_json resp")
      case None
      with assms(1) rg f1 Inr show ?thesis by (simp add: download_files_def)
    next
      case (Some listing)
      obtain rm w2 where mk: "(if \<not> path_exists w1 d then os_makedirs e d w1 else (Inr (), w1)) = (rm, w2)"
        by (cases "(if \<not> path_exists w1 d then os_makedirs e d w1 else (Inr (), w1))") auto
      have f2: "files w2 = files w"
        using mk f1 os_makedirs_files by (auto split: if_splits)
      show ?thesis
      proof (cases rm)
        case (Inl x)
        with assms(1) rg Inr Some mk f2 show ?thesis by (simp add: download_files_def)
      next
        case ok: (Inr u')
        show ?thesis
        proof (cases "py_iter listing")
          case (Inl x)
          with assms(1) rg Inr Some mk ok f2 show ?thesis by (simp add: download_files_def)
        next
          case it: (Inr items)
          with assms(1) rg Inr Some mk ok
          have "download_loop e d items w2 = (r, w')" by (simp add: download_files_def)
          from download_loop_other [OF this assms(2)] f2 show ?thesis by simp
        qed
      qed
    qed
  qed
qed

lemma run_bandit_on_file_files: "run_bandit_on_file eng m fp w = (x, w') \<Longrightarrow> files w' = files w"
  by (auto simp: run_bandit_on_file_def split: prod.splits sum.splits)

lemma scan_loop_files: "scan_loop eng rfs m iss w = (out, w') \<Longrightarrow> files w' = files w"
proof (induction rfs arbitrary: m iss w)
  case Nil
  then show ?case by simp
next
  case (Cons rf rest)
  show ?case
  proof (cases "endswith (snd rf) ''.py''")
    case False
    with Cons show ?thesis by simp
  next
    case True
    let ?fp = "os_path_join (fst rf) (snd rf)"
    let ?w1 = "py_print (PStr (''Scanning '' @ ?fp @ ''...'')) w"
    obtain m' res w2 where rb: "run_bandit_on_file eng m ?fp ?w1 = ((m', res), w2)"
      by (cases "run_bandit_on_file eng m ?fp ?w1") auto
    with Cons.prems True have "scan_loop eng rest m' (iss @ res) w2 = (out, w')"
      by (simp add: Let_def)
    from Cons.IH [OF this] run_bandit_on_file_files [OF rb] show ?thesis by simp
  qed
qed

lemma scan_directory_files: "scan_directory eng m d w = (out, w') \<Longrightarrow> files w' = files w"
  unfolding scan_directory_def by (rule scan_loop_files)

lemma files_fold_print_issue [simp]: "files (fold print_issue iss w) = files w"
  by (induction iss arbitrary: w) (simp_all add: print_issue_def)

lemma stdout_py_print_last [simp]: "last (stdout (py_print v w)) = v"
  by (simp add: py_print_def)

lemma map_of_update_same: "map_of (AList.update k v al) k = Some v"
  by (simp add: update_conv')

subsection \<open>Sets of issues and data frames\<close>

lemma same_element_refl: "same_element cls x x"
  by (simp add: same_element_def)

lemma no_same_pair_snoc:
  "no_same_pair cls (s @ [x]) = (no_same_pair cls s \<and> \<not> list_ex (\<lambda>y. same_element cls y x) s)"
  by (induction s) (auto simp: list_ex_iff)

lemma no_same_pair_foldl:
  "no_same_pair cls s \<Longrightarrow> no_same_pair cls (foldl (set_add cls) s xs)"
  by (induction xs arbitrary: s) (simp_all add: set_add_def no_same_pair_snoc)

lemma no_same_pair_py_set: "no_same_pair cls (py_set cls xs)"
  by (simp add: py_set_def no_same_pair_foldl)

lemma no_same_pair_distinct: "no_same_pair cls xs \<Longrightarrow> distinct xs"
  by (induction xs) (auto simp: list_ex_iff same_element_refl)

lemma foldl_set_add_nonempty: "s \<noteq> [] \<Longrightarrow> foldl (set_add cls) s xs \<noteq> []"
  by (induction xs arbitrary: s) (simp_all add: set_add_def)

lemma py_set_empty_iff: "(py_set cls xs = []) = (xs = [])"
proof (cases xs)
  case Nil
  then show ?thesis by (simp add: py_set_def)
next
  case (Cons x rest)
  have "foldl (set_add cls) [x] rest \<noteq> []" by (rule foldl_set_add_nonempty) simp
  with Cons show ?thesis by (simp add: py_set_def set_add_def)
qed

lemma py_set_pair:
  "py_set cls [a, b] = (if same_element cls a b then [a] else [a, b])"
  by (simp add: py_set_def set_add_def)

lemma keys_format_issue: "map fst (format_issue i) = keys5"
  by (simp add: format_issue_def keys5_def)

lemma distinct_keys5: "distinct keys5"
  by (simp add: keys5_def)

lemma concat_keys_set: "set (concat (map (\<lambda>i. keys5) xs)) \<subseteq> set keys5"
  by (induction xs) auto

lemma columns_of_issues:
  assumes "xs \<noteq> []"
  shows "rev (remdups (rev (concat (map (map fst) (map format_issue xs))))) = keys5"
proof -
  obtain x rest where xs: "xs = x # rest" using assms by (cases xs) auto
  let ?L = "concat (map (\<lambda>i. keys5) rest)"
  have c: "concat (map (map fst) (map format_issue xs)) = keys5 @ ?L"
    by (simp add: xs keys_format_issue o_def)
  have "set (rev ?L) \<subseteq> set (rev keys5)"
    using concat_keys_set [of rest] by simp
  then have "remdups (rev ?L @ rev keys5) = remdups (rev keys5)"
    by (rule remdups_append)
  also have "\<dots> = rev keys5"
    using distinct_keys5 by (simp add: distinct_remdups_id)
  finally have "remdups (rev ?L @ rev keys5) = rev keys5" .
  with c show ?thesis by simp
qed

lemma row_of_issue:
  "map (\<lambda>c. case map_of (format_issue i) c of None \<Rightarrow> PNone | Some v \<Rightarrow> v) keys5
     = map snd (format_issue i)"
  by (simp add: format_issue_def keys5_def)

lemma DataFrame_issues:
  "DataFrame (map format_issue xs)
     = \<lparr>columns = (if xs = [] then [] else keys5), cells = map (\<lambda>i. map snd (format_issue i)) xs\<rparr>"
proof (cases "xs = []")
  case True
  then show ?thesis by (simp add: DataFrame_def)
next
  case False
  from columns_of_issues [OF False] False show ?thesis
    by (simp add: DataFrame_def Let_def row_of_issue o_def)
qed

lemma set_iter_empty_iff: "(set_iter cls s = []) = (s = [])"
  by (metis set_iter_def length_sort length_0_conv)

lemma mset_set_iter: "mset (set_iter cls s) = mset s"
  by (simp add: set_iter_def)

lemma length_set_iter: "length (set_iter cls s) = length s"
  by (simp add: set_iter_def)

lemma to_csv_issues:
  "to_csv (DataFrame (issues_data cls issues))
     = Csv ((if issues = [] then [] else report_header)
            # map (\<lambda>i. map snd (format_issue i)) (set_iter cls (py_set cls issues)))"
  by (simp add: to_csv_def issues_data_def DataFrame_issues py_set_empty_iff set_iter_empty_iff
        report_header_def keys5_def)

lemma header_not_a_row: "report_header \<noteq> map snd (format_issue i)"
  by (simp add: report_header_def format_issue_def)

lemma save_report_ok:
  assumes "can_write e output_file"
  shows "save_compliance_report e cls issues output_file w
           = (Inr (), py_print (PStr (''Issues saved to '' @ apos @ output_file @ apos))
                        (w\<lparr>files := AList.update output_file
                               (Csv ((if issues = [] then [] else report_header)
                                     # map (\<lambda>i. map snd (format_issue i))
                                         (set_iter cls (py_set cls issues))))
                               (files w)\<rparr>))"
  using assms by (simp add: save_compliance_report_def to_csv_issues open_write_def)














section \<open>Properties of the resolver\<close>

lemma split_nonempty: "split c s \<noteq> []"
  by (induction s) (auto split: list.splits)

lemma length_split: "length (split c s) = Suc (length (filter (\<lambda>x. x = c) s))"
  by (induction s) (auto split: list.splits simp: split_nonempty)

lemma split_without_separator: "c \<notin> set s \<Longrightarrow> length (split c s) = 1"
  by (auto simp: length_split filter_empty_conv)

text \<open>
  What the resolver does reject: a reference without the prefix (ValueError), and one
  whose remainder holds no \<^verbatim>\<open>/\<close> at all (AssertionError, which the script does not
  catch). It takes the reference alone, no network and no file system.
\<close>

lemma resolve_rejects_without_slash:
  "(\<not> startswith url github_prefix \<longrightarrow>
      convert_github_url_to_api url = Inl (ValueError ''Invalid GitHub URL''))
   \<and> (startswith url github_prefix \<and> CHR ''/'' \<notin> set (drop (length github_prefix) url) \<longrightarrow>
      convert_github_url_to_api url
        = Inl (AssertionError (''Looks like an invalid('' @ apos @ ''/'' @ apos @ '')'')))"
  by (auto simp: convert_github_url_to_api_def Let_def split_without_separator)

text \<open>
  Claim C9. The claim asks that a reference with fewer than two segments (owner,
  repository name) after the prefix be rejected. The code counts the pieces between
  \<^verbatim>\<open>/\<close> characters, empty ones included: a reference with an owner and no repository
  name, or with neither, is accepted as soon as it holds one \<^verbatim>\<open>/\<close>, and an endpoint
  with empty names is returned.
\<close>

theorem resolve_accepts_empty_segments:
  "convert_github_url_to_api ''https://github.com/owner/''
     = Inr ''https://api.github.com/repos/owner//contents/''
   \<and> convert_github_url_to_api ''https://github.com//''
     = Inr ''https://api.github.com/repos///contents/''
   \<and> split (CHR ''/'') ''owner/'' = [''owner'', []]"
  by (simp add: convert_github_url_to_api_def startswith_def github_prefix_def)

section \<open>Properties of the retriever\<close>

text \<open>
  Claim C1. The claim asks for a numeric status check: status 200 passes, any other
  status fails. The code does otherwise. \<^verbatim>\<open>get_file_list_recursive\<close> compares the
  integer status with the string '200', which is never equal, so it raises
  AssertionError on a response with status 200; \<^verbatim>\<open>download_files\<close> checks no status
  at all, so a response with status 404 whose body is a JSON list is processed
  without any failure.
\<close>

theorem status_check_rejects_numeric_200: 
  "demo_http ''https://api.example/contents/''
     = Some \<lparr>status_code = 200, body_text = ''[...]'', body_json = Some listing_top\<rparr>
   \<and> get_file_list_recursive demo_env (Some ''https://api.example/contents/'') [] empty_world
       = (Inl (AssertionError ''[...]''),
          empty_world\<lparr>requested := [Some ''https://api.example/contents/'']\<rparr>)
   \<and> demo_http ''https://api.example/missing/''
       = Some \<lparr>status_code = 404, body_text = ''[]'', body_json = Some (PList [])\<rparr>
   \<and> fst (download_files demo_env (Some ''https://api.example/missing/'') ''temp'' empty_world)
       = Inr ()
   \<and> py_eq (PInt n) (PStr s) = False"
  by (simp add: get_file_list_recursive_def requests_get_def demo_env_def demo_http_def
        empty_world_def download_files_def path_exists_def os_makedirs_def)

text \<open>
  Claim C2. The claim asks that the directory entry be recursed into, so that both
  \<^verbatim>\<open>a.py\<close> and \<^verbatim>\<open>b.py\<close> are staged. On the listing with the file \<^verbatim>\<open>a.py\<close> and the
  directory \<^verbatim>\<open>sub\<close> (holding \<^verbatim>\<open>b.py\<close>), \<^verbatim>\<open>download_files\<close> stages \<^verbatim>\<open>temp/a.py\<close>
  only: it prints that it skips \<^verbatim>\<open>temp/sub\<close>, never requests the nested listing and
  never stages \<^verbatim>\<open>b.py\<close>. \<^verbatim>\<open>get_file_list_recursive\<close>, which is written to recurse,
  returns no list: its status assertion fails, and past it the loop over these entries
  would stop at the directory with NameError.
\<close>

theorem retrieval_stages_top_level_only:
  "download_files demo_env (Some ''https://api.example/contents/'') ''temp'' empty_world
     = (Inr (), staged_world)
   \<and> map fst (files staged_world) = [''temp/a.py'']
   \<and> map_of (files staged_world) ''temp/b.py'' = None
   \<and> fst (get_file_list_recursive demo_env (Some ''https://api.example/contents/'') [] empty_world)
       = Inl (AssertionError ''[...]'')
   \<and> fst (file_list_loop top_entries [] empty_world) = Inl (NameError ''get_all_nested_files'')"
  by (simp add: download_files_def requests_get_def demo_env_def demo_http_def empty_world_def
       path_exists_def os_makedirs_def listing_top_def top_entries_def os_path_join_def startswith_def endswith_def
       lower_def lower_char_def py_print_def open_write_def staged_world_def
       get_file_list_recursive_def)

section \<open>Properties of the orchestrator and the writers\<close>

text \<open>
  Claim C3. Let retrieval and the scan have succeeded, with \<open>issues\<close> the findings
  of the scan. If normalization yields no finding, \<^verbatim>\<open>main\<close> returns having written no
  file after retrieval (and \<^verbatim>\<open>compliance_report.csv\<close> is as it was before the run) and
  its last output is "No issues found."; if it yields N findings, N at least 1, and
  the report can be opened for writing, \<^verbatim>\<open>main\<close> writes \<^verbatim>\<open>compliance_report.csv\<close> with
  exactly N + 1 rows.
\<close>

theorem main_report_row_count:
  assumes dl: "download_files e repo_url directory w = (Inr (), w1)"
      and sc: "scan_directory eng b_mgr directory w1 = (issues, w2)"
  shows "(length (issues_data cls issues) = 0 \<longrightarrow>
            (\<exists>w'. main e cls eng b_mgr repo_url directory w = (Inr (), w')
                \<and> files w' = files w1
                \<and> map_of (files w') ''compliance_report.csv'' = map_of (files w) ''compliance_report.csv''
                \<and> last (stdout w') = PStr ''No issues found.''))
       \<and> (0 < length (issues_data cls issues) \<and> can_write e ''compliance_report.csv'' \<longrightarrow>
            (\<exists>w' rows. main e cls eng b_mgr repo_url directory w = (Inr (), w')
                \<and> map_of (files w') ''compliance_report.csv'' = Some (Csv rows)
                \<and> length rows = length (issues_data cls issues) + 1))"
proof (intro conjI impI)
  assume "length (issues_data cls issues) = 0"
  then have empty: "issues = []"
    by (simp add: issues_data_def py_set_empty_iff set_iter_empty_iff)
  have f2: "files w2 = files w1" using scan_directory_files [OF sc] .
  have csv: "\<not> endswith (lower ''compliance_report.csv'') ''.py''"
    by (simp add: endswith_def lower_def lower_char_def)
  have keep: "map_of (files w1) ''compliance_report.csv'' = map_of (files w) ''compliance_report.csv''"
    using download_files_other [OF dl csv] .
  let ?w' = "py_print (PStr ''No issues found.'')
               (py_print (PStr ''====================XXXXXXXXXX===================='')
                  (py_print (PStr ''====================ISSUE_LIST===================='') w2))"
  have "main e cls eng b_mgr repo_url directory w = (Inr (), ?w')"
    using dl sc empty by (simp add: main_def)
  moreover have "files ?w' = files w1" using f2 by simp
  moreover have "map_of (files ?w') ''compliance_report.csv'' = map_of (files w) ''compliance_report.csv''"
    using f2 keep by simp
  moreover have "last (stdout ?w') = PStr ''No issues found.''" by simp
  ultimately show "\<exists>w'. main e cls eng b_mgr repo_url directory w = (Inr (), w')
                \<and> files w' = files w1
                \<and> map_of (files w') ''compliance_report.csv'' = map_of (files w) ''compliance_report.csv''
                \<and> last (stdout w') = PStr ''No issues found.''"
    by blast
next
  assume a: "0 < length (issues_data cls issues) \<and> can_write e ''compliance_report.csv''"
  then have ne: "issues \<noteq> []" and wr: "can_write e ''compliance_report.csv''"
    by (auto simp: issues_data_def py_set_empty_iff set_iter_empty_iff)
  let ?w5 = "py_print (PStr ''====================XXXXXXXXXX===================='')
               (fold print_issue issues
                  (py_print (PStr ''====================ISSUE_LIST===================='') w2))"
  let ?rows = "report_header # map (\<lambda>i. map snd (format_issue i))
                                   (set_iter cls (py_set cls issues))"
  let ?w' = "py_print (PStr (''Issues saved to '' @ apos @ ''compliance_report.csv'' @ apos))
               (?w5\<lparr>files := AList.update ''compliance_report.csv'' (Csv ?rows) (files ?w5)\<rparr>)"
  have "main e cls eng b_mgr repo_url directory w
          = save_compliance_report e cls issues ''compliance_report.csv'' ?w5"
    using dl sc ne by (simp add: main_def Let_def)
  then have "main e cls eng b_mgr repo_url directory w = (Inr (), ?w')"
    using save_report_ok [OF wr, of cls issues ?w5] ne by simp
  moreover have "map_of (files ?w') ''compliance_report.csv'' = Some (Csv ?rows)"
    by (simp add: map_of_update_same)
  moreover have "length ?rows = length (issues_data cls issues) + 1"
    by (simp add: issues_data_def)
  ultimately show "\<exists>w' rows. main e cls eng b_mgr repo_url directory w = (Inr (), w')
                \<and> map_of (files w') ''compliance_report.csv'' = Some (Csv rows)
                \<and> length rows = length (issues_data cls issues) + 1"
    by blast
qed

text \<open>
  Witness for claim C3: the small repository, scanned by an engine that reports one
  issue (a report of two rows) and by one that reports none (no report).
\<close>

theorem main_report_row_count_witness:
  "download_files demo_env (Some ''https://api.example/contents/'') ''temp'' empty_world
     = (Inr (), staged_world)
   \<and> fst (scan_directory demo_engine () ''temp'' staged_world) = [demo_issue]
   \<and> 0 < length (issues_data identity_class [demo_issue])
   \<and> can_write demo_env ''compliance_report.csv''
   \<and> (\<exists>w' rows. main demo_env identity_class demo_engine ()
                    (Some ''https://api.example/contents/'') ''temp'' empty_world = (Inr (), w')
          \<and> map_of (files w') ''compliance_report.csv'' = Some (Csv rows)
          \<and> length rows = 2)
   \<and> fst (scan_directory quiet_engine () ''temp'' staged_world) = []
   \<and> length (issues_data identity_class []) = 0
   \<and> (\<exists>w'. main demo_env identity_class quiet_engine ()
                (Some ''https://api.example/contents/'') ''temp'' empty_world = (Inr (), w')
          \<and> files w' = files staged_world
          \<and> map_of (files w') ''compliance_report.csv'' = None
          \<and> last (stdout w') = PStr ''No issues found.'')"
proof -
  have dl: "download_files demo_env (Some ''https://api.example/contents/'') ''temp'' empty_world
     = (Inr (), staged_world)"
    by (simp add: download_files_def requests_get_def demo_env_def demo_http_def empty_world_def
       path_exists_def os_makedirs_def listing_top_def top_entries_def os_path_join_def startswith_def endswith_def
       lower_def lower_char_def py_print_def open_write_def staged_world_def)
  have s1: "fst (scan_directory demo_engine () ''temp'' staged_world) = [demo_issue]"
    by (simp add: scan_directory_def os_walk_def walk_root_def os_path_basename_def staged_world_def
          startswith_def endswith_def os_path_join_def run_bandit_on_file_def demo_engine_def
          demo_issue_def Let_def)
  have s2: "fst (scan_directory quiet_engine () ''temp'' staged_world) = []"
    by (simp add: scan_directory_def os_walk_def walk_root_def os_path_basename_def staged_world_def
          startswith_def endswith_def os_path_join_def run_bandit_on_file_def quiet_engine_def Let_def)
  have sc1: "scan_directory demo_engine () ''temp'' staged_world
               = ([demo_issue], snd (scan_directory demo_engine () ''temp'' staged_world))"
    using s1 by (simp add: prod_eq_iff)
  have sc2: "scan_directory quiet_engine () ''temp'' staged_world
               = ([], snd (scan_directory quiet_engine () ''temp'' staged_world))"
    using s2 by (simp add: prod_eq_iff)
  have n1: "length (issues_data identity_class [demo_issue]) = 1"
    by (simp add: issues_data_def py_set_def set_add_def length_set_iter)
  have n0: "length (issues_data identity_class []) = 0"
    by (simp add: issues_data_def py_set_def length_set_iter)
  have wr: "can_write demo_env ''compliance_report.csv''" by (simp add: demo_env_def)
  have e0: "map_of (files empty_world) ''compliance_report.csv'' = None"
    by (simp add: empty_world_def)
  have pre: "0 < length (issues_data identity_class [demo_issue])
               \<and> can_write demo_env ''compliance_report.csv''"
    using n1 wr by simp
  with main_report_row_count [OF dl sc1, of identity_class]
  obtain w' rows where
      "main demo_env identity_class demo_engine ()
          (Some ''https://api.example/contents/'') ''temp'' empty_world = (Inr (), w')"
      "map_of (files w') ''compliance_report.csv'' = Some (Csv rows)"
      "length rows = length (issues_data identity_class [demo_issue]) + 1"
    by blast
  then have r1: "\<exists>w' rows. main demo_env identity_class demo_engine ()
                    (Some ''https://api.example/contents/'') ''temp'' empty_world = (Inr (), w')
          \<and> map_of (files w') ''compliance_report.csv'' = Some (Csv rows)
          \<and> length rows = 2"
    using n1 by auto
  from main_report_row_count [OF dl sc2, of identity_class] n0
  obtain w'' where
      "main demo_env identity_class quiet_engine ()
          (Some ''https://api.example/contents/'') ''temp'' empty_world = (Inr (), w'')"
      "files w'' = files staged_world"
      "map_of (files w'') ''compliance_report.csv'' = map_of (files empty_world) ''compliance_report.csv''"
      "last (stdout w'') = PStr ''No issues found.''"
    by blast
  then have r2: "\<exists>w'. main demo_env identity_class quiet_engine ()
                (Some ''https://api.example/contents/'') ''temp'' empty_world = (Inr (), w')
          \<and> files w' = files staged_world
          \<and> map_of (files w') ''compliance_report.csv'' = None
          \<and> last (stdout w') = PStr ''No issues found.''"
    using e0 by auto
  from dl s1 s2 pre n0 r1 r2 show ?thesis by blast
qed

text \<open>
  Claim C4, as stated, fails for the writer of the primary variant: on an empty
  sequence \<^verbatim>\<open>save_compliance_report\<close> creates the file, but its only row is empty; it
  is not the header-only file.
\<close>

theorem empty_report_has_no_header_counterexample:
  "save_compliance_report demo_env value_class [] ''compliance_report.csv'' empty_world
     = (Inr (),
        \<lparr>dirs = [], files = [(''compliance_report.csv'', Csv [[]])],
         stdout = [PStr (''Issues saved to '' @ apos @ ''compliance_report.csv'' @ apos)],
         requested = []\<rparr>)
   \<and> Csv [[]] \<noteq> Csv [report_header]"
  by (simp add: save_compliance_report_def to_csv_issues open_write_def demo_env_def empty_world_def
        py_set_def set_iter_def py_print_def report_header_def)

text \<open>
  Claim C4, amended. Whenever the output file can be opened for writing: the writer of
  the alternate variant creates it with the fixed header row first, followed by the
  data rows, also when there are none; \<^verbatim>\<open>save_compliance_report\<close> creates it with a
  header row that holds the five column names when there is at least one issue and no
  column name when there is none, followed by one row per kept issue, in the order in
  which the set is iterated (some permutation of the kept issues).
\<close>

theorem writers_header_row:
  "(can_write ea (os_path_join output_dir ''compliance_report.csv'') \<longrightarrow>
      (\<exists>w'. write_report ea output_dir csv_data w = (Inr (), w')
          \<and> map_of (files w') (os_path_join output_dir ''compliance_report.csv'')
              = Some (Csv (headers # csv_data))))
   \<and> (can_write e output_file \<longrightarrow>
      (\<exists>w' rows. save_compliance_report e cls issues output_file w = (Inr (), w')
          \<and> map_of (files w') output_file
              = Some (Csv ((if issues = [] then [] else report_header) # rows))
          \<and> mset rows = image_mset (\<lambda>i. map snd (format_issue i)) (mset (py_set cls issues))))"
proof (intro conjI impI)
  assume "can_write ea (os_path_join output_dir ''compliance_report.csv'')"
  then show "\<exists>w'. write_report ea output_dir csv_data w = (Inr (), w')
          \<and> map_of (files w') (os_path_join output_dir ''compliance_report.csv'')
              = Some (Csv (headers # csv_data))"
    by (simp add: write_report_def open_write_def env.truncate_def Let_def map_of_update_same)
next
  assume wr: "can_write e output_file"
  let ?rows = "map (\<lambda>i. map snd (format_issue i)) (set_iter cls (py_set cls issues))"
  have "mset ?rows = image_mset (\<lambda>i. map snd (format_issue i)) (mset (py_set cls issues))"
    by (simp add: mset_set_iter)
  with save_report_ok [OF wr, of cls issues w]
  show "\<exists>w' rows. save_compliance_report e cls issues output_file w = (Inr (), w')
          \<and> map_of (files w') output_file
              = Some (Csv ((if issues = [] then [] else report_header) # rows))
          \<and> mset rows = image_mset (\<lambda>i. map snd (format_issue i)) (mset (py_set cls issues))"
    by (simp add: map_of_update_same)
qed

text \<open>
  Witness for claim C4 (amended): the alternate writer on zero rows, the primary
  writer on three findings of which two are one object.
\<close>

theorem writers_header_row_witness:
  "can_write working_alt_env (os_path_join ''out'' ''compliance_report.csv'')
   \<and> (\<exists>w'. write_report working_alt_env ''out'' [] empty_world = (Inr (), w')
          \<and> map_of (files w') (os_path_join ''out'' ''compliance_report.csv'') = Some (Csv [headers]))
   \<and> can_write demo_env ''compliance_report.csv''
   \<and> (\<exists>w' rows. save_compliance_report demo_env identity_class [twin1, twin1, twin2]
               ''compliance_report.csv'' empty_world = (Inr (), w')
          \<and> map_of (files w') ''compliance_report.csv'' = Some (Csv (report_header # rows))
          \<and> mset rows = {#map snd (format_issue twin1), map snd (format_issue twin2)#})"
proof -
  have a: "can_write working_alt_env (os_path_join ''out'' ''compliance_report.csv'')"
    by (simp add: working_alt_env_def broken_alt_env_def)
  have b: "can_write demo_env ''compliance_report.csv''" by (simp add: demo_env_def)
  have p: "py_set identity_class [twin1, twin1, twin2] = [twin1, twin2]"
    by (simp add: py_set_def set_add_def same_element_def identity_class_def twin1_def twin2_def)
  note t = writers_header_row [of working_alt_env "''out''" "[]" empty_world demo_env "''compliance_report.csv''"
              identity_class "[twin1, twin1, twin2]"]
  from t a have r1: "\<exists>w'. write_report working_alt_env ''out'' [] empty_world = (Inr (), w')
          \<and> map_of (files w') (os_path_join ''out'' ''compliance_report.csv'') = Some (Csv [headers])"
    by blast
  from t b obtain w' rows where
      "save_compliance_report demo_env identity_class [twin1, twin1, twin2]
          ''compliance_report.csv'' empty_world = (Inr (), w')"
      "map_of (files w') ''compliance_report.csv''
          = Some (Csv ((if [twin1, twin1, twin2] = [] then [] else report_header) # rows))"
      "mset rows = image_mset (\<lambda>i. map snd (format_issue i))
                     (mset (py_set identity_class [twin1, twin1, twin2]))"
    by blast
  then have r2: "\<exists>w' rows. save_compliance_report demo_env identity_class [twin1, twin1, twin2]
               ''compliance_report.csv'' empty_world = (Inr (), w')
          \<and> map_of (files w') ''compliance_report.csv'' = Some (Csv (report_header # rows))
          \<and> mset rows = {#map snd (format_issue twin1), map snd (format_issue twin2)#}"
    unfolding p by auto
  from a b r1 r2 show ?thesis by blast
qed

section \<open>Properties of the normalizer\<close>




text \<open>
  Claim C6, as stated, fails even when issues compare by their attributes: two
  findings in files of the same name in different directories give two identical data
  rows in the report.
\<close>

theorem report_rows_repeat_counterexample:
  "fst (save_compliance_report demo_env value_class [in_pkg, in_lib] ''compliance_report.csv'' empty_world)
     = Inr ()
   \<and> map_of (files (snd (save_compliance_report demo_env value_class [in_pkg, in_lib]
                           ''compliance_report.csv'' empty_world))) ''compliance_report.csv''
     = Some (Csv [report_header,
                  [PStr ''x.py'', PInt 7, PStr ''LOW'', PStr ''HIGH'', PStr ''Use of assert detected.''],
                  [PStr ''x.py'', PInt 7, PStr ''LOW'', PStr ''HIGH'', PStr ''Use of assert detected.'']])"
  by (simp add: save_compliance_report_def to_csv_issues open_write_def demo_env_def empty_world_def
        py_set_pair set_iter_def same_element_def value_class_def in_pkg_def in_lib_def format_issue_def
        os_path_basename_def)

text \<open>
  Claim C6, amended. In every report \<^verbatim>\<open>save_compliance_report\<close> writes, the header
  row differs from every data row, and the data rows are, in some order, one row for
  each issue kept by \<^verbatim>\<open>set(issues)\<close>, no two of which are the same set element. (Data
  rows of different issues may coincide.)
\<close>

theorem report_one_row_per_kept_issue:
  assumes "can_write e output_file"
  shows "\<exists>w' rows. save_compliance_report e cls issues output_file w = (Inr (), w')
          \<and> map_of (files w') output_file
              = Some (Csv ((if issues = [] then [] else report_header) # rows))
          \<and> mset rows = image_mset (\<lambda>i. map snd (format_issue i)) (mset (py_set cls issues))
          \<and> (if issues = [] then [] else report_header) \<notin> set rows
          \<and> no_same_pair cls (py_set cls issues)
          \<and> distinct (py_set cls issues)"
proof -
  let ?rows = "map (\<lambda>i. map snd (format_issue i)) (set_iter cls (py_set cls issues))"
  have m: "mset ?rows = image_mset (\<lambda>i. map snd (format_issue i)) (mset (py_set cls issues))"
    by (simp add: mset_set_iter)
  have h: "(if issues = [] then [] else report_header) \<notin> set ?rows"
  proof (cases "issues = []")
    case True
    then show ?thesis by (simp add: py_set_def set_iter_def)
  next
    case False
    then show ?thesis using header_not_a_row by auto
  qed
  from save_report_ok [OF assms, of cls issues w] m h no_same_pair_py_set [of cls issues]
    no_same_pair_distinct [OF no_same_pair_py_set [of cls issues]]
  show ?thesis by (simp add: map_of_update_same)
qed

text \<open>
  Witness for claim C6 (amended): an issue object listed twice and a second object.
\<close>

theorem report_one_row_per_kept_issue_witness:
  "can_write demo_env ''compliance_report.csv''
   \<and> (\<exists>w' rows. save_compliance_report demo_env identity_class [twin1, twin1, twin2]
               ''compliance_report.csv'' empty_world = (Inr (), w')
          \<and> map_of (files w') ''compliance_report.csv'' = Some (Csv (report_header # rows))
          \<and> mset rows = {#map snd (format_issue twin1), map snd (format_issue twin2)#}
          \<and> report_header \<notin> set rows)
   \<and> no_same_pair identity_class [twin1, twin2]
   \<and> distinct [twin1, twin2]"
proof -
  have b: "can_write demo_env ''compliance_report.csv''" by (simp add: demo_env_def)
  have p: "py_set identity_class [twin1, twin1, twin2] = [twin1, twin2]"
    by (simp add: py_set_def set_add_def same_element_def identity_class_def twin1_def twin2_def)
  from report_one_row_per_kept_issue [OF b, of identity_class "[twin1, twin1, twin2]" empty_world]
  obtain w' rows where
      m: "save_compliance_report demo_env identity_class [twin1, twin1, twin2]
            ''compliance_report.csv'' empty_world = (Inr (), w')"
      and f: "map_of (files w') ''compliance_report.csv''
              = Some (Csv ((if [twin1, twin1, twin2] = [] then [] else report_header) # rows))"
      and r: "mset rows = image_mset (\<lambda>i. map snd (format_issue i))
                            (mset (py_set identity_class [twin1, twin1, twin2]))"
      and h: "(if [twin1, twin1, twin2] = [] then [] else report_header) \<notin> set rows"
      and n: "no_same_pair identity_class (py_set identity_class [twin1, twin1, twin2])"
      and d: "distinct (py_set identity_class [twin1, twin1, twin2])"
    by blast
  from f have f': "map_of (files w') ''compliance_report.csv'' = Some (Csv (report_header # rows))"
    by simp
  from r have r': "mset rows = {#map snd (format_issue twin1), map snd (format_issue twin2)#}"
    unfolding p by simp
  from h have h': "report_header \<notin> set rows" by simp
  from b m f' r' h' n [unfolded p] d [unfolded p] show ?thesis by blast
qed

text \<open>
  Claim C10. The File field of a row is the base name of the issue's file: it holds no
  \<^verbatim>\<open>/\<close> and is a suffix of the path. Two findings that agree on base name, line,
  severity, confidence and message are formatted to the same row.
\<close>

theorem format_issue_keeps_basename_only:
  "map_of (format_issue i) ''File'' = Some (PStr (os_path_basename (fname i)))
   \<and> CHR ''/'' \<notin> set (os_path_basename (fname i))
   \<and> (\<exists>d. fname i = d @ os_path_basename (fname i))
   \<and> (os_path_basename (fname i) = os_path_basename (fname j) \<and> lineno i = lineno j
        \<and> severity i = severity j \<and> confidence i = confidence j \<and> issue_text i = issue_text j
      \<longrightarrow> format_issue i = format_issue j)"
  using basename_no_slash [of "fname i"] basename_suffix [of "fname i"]
  by (simp add: format_issue_def)

text \<open>
  Witness for claim C10: the same file name in two directories.
\<close>

theorem format_issue_keeps_basename_only_witness:
  "os_path_basename (fname in_pkg) = os_path_basename (fname in_lib)
   \<and> lineno in_pkg = lineno in_lib \<and> severity in_pkg = severity in_lib
   \<and> confidence in_pkg = confidence in_lib \<and> issue_text in_pkg = issue_text in_lib
   \<and> fname in_pkg \<noteq> fname in_lib
   \<and> map_of (format_issue in_pkg) ''File'' = Some (PStr ''x.py'')
   \<and> format_issue in_pkg = format_issue in_lib"
proof -
  have h: "os_path_basename (fname in_pkg) = os_path_basename (fname in_lib)
   \<and> lineno in_pkg = lineno in_lib \<and> severity in_pkg = severity in_lib
   \<and> confidence in_pkg = confidence in_lib \<and> issue_text in_pkg = issue_text in_lib"
    by (simp add: in_pkg_def in_lib_def os_path_basename_def)
  have b: "os_path_basename (fname in_pkg) = ''x.py''"
    by (simp add: in_pkg_def os_path_basename_def)
  have n: "fname in_pkg \<noteq> fname in_lib" by (simp add: in_pkg_def in_lib_def)
  from format_issue_keeps_basename_only [of in_pkg in_lib] h have f: "format_issue in_pkg = format_issue in_lib"
    by blast
  from format_issue_keeps_basename_only [of in_pkg in_lib]
  have g: "map_of (format_issue in_pkg) ''File'' = Some (PStr (os_path_basename (fname in_pkg)))"
    by blast
  from h n f g [unfolded b] show ?thesis by blast
qed

section \<open>Error paths\<close>

text \<open>
  Claim C7. The claim asks that the temporary clone directory be removed on every
  path. The code removes it in its last step only: when Bandit's output is not JSON,
  \<^verbatim>\<open>run_bandit\<close> raises JSONDecodeError and the directory and the clone are still on
  disk, whereas on the path without error they are gone.
\<close>

theorem temp_dir_left_on_error:
  "run_bandit broken_alt_env ''https://github.com/o/r'' ''out'' empty_world
     = (Inl JSONDecodeError,
        \<lparr>dirs = [''/tmp/tmpabc''], files = [(''/tmp/tmpabc/a.py'', Text ''print(1)'')],
         stdout = [], requested = []\<rparr>)
   \<and> run_bandit working_alt_env ''https://github.com/o/r'' ''out'' empty_world
     = (Inr (),
        \<lparr>dirs = [], files = [(''out/compliance_report.csv'', Csv [headers])],
         stdout = [PStr (''CSV file '' @ apos @ ''out/compliance_report.csv'' @ apos
                          @ '' has been created successfully.'')],
         requested = []\<rparr>)"
  by (simp add: run_bandit_def broken_alt_env_def working_alt_env_def empty_world_def
        AList.merge_def write_report_def open_write_def os_path_join_def startswith_def endswith_def
        env.truncate_def py_print_def shutil_rmtree_def below_def)

text \<open>
  Claim C8. The claim asks that a failed resolution end the run before any retrieval.
  The code prints the message of the ValueError and goes on to call \<^verbatim>\<open>main(None)\<close>:
  \<^verbatim>\<open>download_files\<close> calls \<^verbatim>\<open>requests.get(None)\<close>, and the run ends with that call's
  exception. (A reference with one segment raises AssertionError, which is not caught,
  and that run does end at once.)
\<close>

theorem invalid_reference_still_runs_main:
  "script e cls eng b_mgr [''compliance_check.py'', ''http://example.com/o/r''] w
     = (Inl MissingSchema,
        w\<lparr>stdout := stdout w @ [PStr ''Invalid GitHub URL''], requested := requested w @ [None]\<rparr>)
   \<and> script e cls eng b_mgr [''compliance_check.py'', ''https://github.com/owner''] w
     = (Inl (AssertionError (''Looks like an invalid('' @ apos @ ''/'' @ apos @ '')'')), w)"
  by (simp add: script_def convert_github_url_to_api_def startswith_def github_prefix_def
        main_def download_files_def requests_get_def py_print_def)

end
